theory Spec2Isabelle
  imports Main
begin

section \<open>JavaScript values\<close>

text \<open>
  The reducer in \<^verbatim>\<open>src/src/reducers/header.js\<close> reads properties off an action object whose
  fields it does not control, so actions are modelled as untyped JavaScript values.
  A number is modelled by the integer it holds: the numbers of this program are screen
  ids and a counter. Arithmetic on numbers is the arithmetic of IEEE doubles, given below.
  An object is the list of its own properties; the first binding of a name is the one read.
\<close>

datatype jsval =
    Undefined
  | Null
  | JBool bool
  | JNum int
  | JStr string
  | JObj "(string \<times> jsval) list"

datatype error = TypeError

text \<open>
  Property read \<^verbatim>\<open>v.k\<close>. Reading a property of \<^verbatim>\<open>undefined\<close> or \<^verbatim>\<open>null\<close> throws a
  TypeError; a property an object does not have reads as \<^verbatim>\<open>undefined\<close>; so does every
  property name this program uses (\<^verbatim>\<open>type\<close>, \<^verbatim>\<open>title\<close>, \<^verbatim>\<open>shouldShowBack\<close>,
  \<^verbatim>\<open>shouldShowSearch\<close>, \<^verbatim>\<open>en\<close>, \<^verbatim>\<open>fr\<close>, \<^verbatim>\<open>app_name\<close>) on a boolean, a number or a string.
\<close>

fun getProp :: "jsval \<Rightarrow> string \<Rightarrow> error + jsval" where
  "getProp Undefined k = Inl TypeError"
| "getProp Null k = Inl TypeError"
| "getProp (JObj fs) k = Inr (case map_of fs k of None \<Rightarrow> Undefined | Some v \<Rightarrow> v)"
| "getProp (JBool b) k = Inr Undefined"
| "getProp (JNum n) k = Inr Undefined"
| "getProp (JStr s) k = Inr Undefined"

text \<open>Truthiness, as \<^verbatim>\<open>&&\<close>, \<^verbatim>\<open>||\<close> and \<^verbatim>\<open>?:\<close> test it.\<close>

fun truthy :: "jsval \<Rightarrow> bool" where
  "truthy Undefined = False"
| "truthy Null = False"
| "truthy (JBool b) = b"
| "truthy (JNum n) = (n \<noteq> 0)"
| "truthy (JStr s) = (s \<noteq> [])"
| "truthy (JObj fs) = True"

text \<open>
  The number of binary digits of a natural number.
\<close>

fun bitLength :: "nat \<Rightarrow> nat" where
  "bitLength n = (if n = 0 then 0 else Suc (bitLength (n div 2)))"

declare bitLength.simps [simp del]

text \<open>
  The double nearest to an integer \<open>m\<close>. A double carries 53 significant binary digits:
  an integer of magnitude below \<open>2^53\<close> is a double; a larger one is rounded to 53
  digits, to the nearest, and to the even one of the two nearest when it lies half way
  (the default rounding of IEEE 754, the only one JavaScript has).
\<close>

definition roundDouble :: "int \<Rightarrow> int" where
  "roundDouble m =
     (let a = nat \<bar>m\<bar> in
      if a < 2 ^ 53 then m
      else
        (let e = bitLength a - 53;
             q = a div 2 ^ e;
             r = a mod 2 ^ e;
             h = 2 ^ (e - 1);
             q' = (if h < r \<or> (r = h \<and> odd q) then q + 1 else q)
         in sgn m * int (q' * 2 ^ e)))"

text \<open>
  \<^verbatim>\<open>x + y\<close> on two numbers that hold integers: the exact sum, rounded to a double. The
  reducer only ever adds 1 to a double, and that sum never rounds to an infinity.
\<close>

definition jsAdd :: "int \<Rightarrow> int \<Rightarrow> int" where
  "jsAdd x y = roundDouble (x + y)"

section \<open>The header reducer (\<^verbatim>\<open>src/src/reducers/header.js\<close>)\<close>

text \<open>
  The \<^verbatim>\<open>State\<close> type of the source. \<open>backNavigation\<close> is a number holding a count. The
  two flags are stored as the reducer stores them: whatever value the action carried.
\<close>

record header_state =
  backNavigation :: int
  title :: jsval
  shouldShowBack :: jsval
  shouldShowSearch :: jsval

text \<open>
  \<^verbatim>\<open>CoreTranslations && CoreTranslations.en ? CoreTranslations.en.app_name : fallback\<close>.
  The translations file \<^verbatim>\<open>assets/json/CoreTranslations\<close> is not part of the sources at hand,
  so its value \<open>ct\<close> is a parameter. The property reads are guarded by the truthiness
  tests before them, so none of them can throw.
\<close>

definition appName :: "jsval \<Rightarrow> string \<Rightarrow> string \<Rightarrow> jsval" where
  "appName ct lang fallback =
     (if \<not> truthy ct then JStr fallback
      else case getProp ct lang of
             Inl e \<Rightarrow> JStr fallback
           | Inr l \<Rightarrow>
               if \<not> truthy l then JStr fallback
               else (case getProp l ''app_name'' of Inl e \<Rightarrow> JStr fallback | Inr n \<Rightarrow> n))"

definition defaultTitle :: "jsval \<Rightarrow> jsval" where
  "defaultTitle ct =
     JObj [(''name_en'', appName ct ''en'' ''Campus Guide''),
           (''name_fr'', appName ct ''fr'' ''Guide de campus'')]"

definition initialState :: "jsval \<Rightarrow> header_state" where
  "initialState ct =
     \<lparr> backNavigation = 0,
       title = defaultTitle ct,
       shouldShowBack = JBool False,
       shouldShowSearch = JBool False \<rparr>"

text \<open>
  \<^verbatim>\<open>function header(state = initialState, action)\<close>. The state argument is \<open>None\<close> when it
  is absent (\<^verbatim>\<open>undefined\<close>), which is when the default parameter applies. The
  \<^verbatim>\<open>switch\<close> compares \<^verbatim>\<open>action.type\<close> with \<^verbatim>\<open>===\<close> against four string literals, in the
  order of the source.
\<close>

definition header :: "jsval \<Rightarrow> header_state option \<Rightarrow> jsval \<Rightarrow> error + header_state" where
  "header ct state0 action =
     (let state = (case state0 of None \<Rightarrow> initialState ct | Some s \<Rightarrow> s) in
      case getProp action ''type'' of
        Inl e \<Rightarrow> Inl e
      | Inr t \<Rightarrow>
          if t = JStr ''NAVIGATE_BACK'' then
            Inr (state\<lparr>backNavigation := jsAdd (backNavigation state) 1\<rparr>)
          else if t = JStr ''SET_HEADER_TITLE'' then
            (case getProp action ''title'' of
               Inl e \<Rightarrow> Inl e
             | Inr v \<Rightarrow> Inr (state\<lparr>title := (if truthy v then v else title (initialState ct))\<rparr>))
          else if t = JStr ''HEADER_SHOW_BACK'' then
            (case getProp action ''shouldShowBack'' of
               Inl e \<Rightarrow> Inl e
             | Inr v \<Rightarrow> Inr (state\<lparr>shouldShowBack := v\<rparr>))
          else if t = JStr ''HEADER_SHOW_SEARCH'' then
            (case getProp action ''shouldShowSearch'' of
               Inl e \<Rightarrow> Inl e
             | Inr v \<Rightarrow> Inr (state\<lparr>shouldShowSearch := v\<rparr>))
          else Inr state)"

text \<open>
  A store feeding a list of actions through the reducer, each on the state the previous
  one returned; a throw ends the run.
\<close>

fun headerAll :: "jsval \<Rightarrow> header_state \<Rightarrow> jsval list \<Rightarrow> error + header_state" where
  "headerAll ct s [] = Inr s"
| "headerAll ct s (a # as) =
     (case header ct (Some s) a of Inl e \<Rightarrow> Inl e | Inr s' \<Rightarrow> headerAll ct s' as)"

section \<open>The tab component (\<^verbatim>\<open>src/js/components/Tabs.js\<close>)\<close>

text \<open>
  A screen id is a number or a string (\<^verbatim>\<open>number | string\<close>); \<^verbatim>\<open>===\<close> on two of them is
  equality of kind and value.
\<close>

datatype screen = ScreenNum int | ScreenStr string

text \<open>A registered search listener, known by its identity.\<close>

type_synonym listener = nat

text \<open>
  The component drives collaborators whose code is outside the component: the navigator
  and the navigation bar of the view layer, the search manager, the layout animation and
  the search listeners. Each call made on one of them is recorded, in the order made.
  Search terms are \<^verbatim>\<open>?string\<close>: \<open>None\<close> stands for \<^verbatim>\<open>null\<close> or \<^verbatim>\<open>undefined\<close>.
\<close>

datatype call =
    ResumeAllSearchListeners
  | NavBarShowBackButton bool
  | NavBarClearSearch
  | NavigatorResetTo screen
  | NavigatorPush screen jsval
  | NavigatorPop
  | LayoutEaseInEaseOut
  | ListenerOnSearch listener "string option"

text \<open>
  The state the component works on: the module-level \<^verbatim>\<open>screenStack\<close>, the component's
  \<^verbatim>\<open>state.currentTab\<close> and \<^verbatim>\<open>_ignoreNextSearch\<close> (never initialised by the source, so falsy
  until set), and the calls made so far. \<open>headerStore\<close> is the header state kept by the
  reducer above: \<^verbatim>\<open>Tabs.js\<close> holds no reference to it and dispatches no action, so no
  operation below writes it. \<^verbatim>\<open>setState\<close> is taken to have set \<open>currentTab\<close> by the time
  \<^verbatim>\<open>_changeTabs\<close> returns.
\<close>

record app =
  screenStack :: "screen list"
  currentTab :: int
  ignoreNextSearch :: bool
  calls :: "call list"
  headerStore :: header_state

text \<open>
  What the collaborators answer when they are asked: \<^verbatim>\<open>SearchManager.numberOfSearchListeners()\<close>,
  \<^verbatim>\<open>SearchManager.getHighestPrioritySearchListeners()\<close> (an array whose entries may be null),
  \<^verbatim>\<open>SearchManager.getDefaultSearchListener()\<close> and \<^verbatim>\<open>Preferences.getAlwaysSearchAll()\<close>.
  Their modules are not part of the sources at hand, so their answers are parameters.
\<close>

record registry =
  numberOfSearchListeners :: nat
  highestPrioritySearchListeners :: "listener option list"
  defaultSearchListener :: "listener option"
  alwaysSearchAll :: bool

definition record_call :: "call \<Rightarrow> app \<Rightarrow> app" where
  "record_call c st = st\<lparr>calls := calls st @ [c]\<rparr>"

text \<open>\<^verbatim>\<open>screenStack[screenStack.length - 1]\<close>: \<^verbatim>\<open>undefined\<close> (\<open>None\<close>) on an empty array.\<close>

definition stackTop :: "screen list \<Rightarrow> screen option" where
  "stackTop xs = (if xs = [] then None else Some (last xs))"

text \<open>
  Modelled from the spec: \<^verbatim>\<open>ScreenUtils.isRootScreen\<close>, whose module is not part of the
  sources at hand: the supplied screen id is compared against the known set of per-tab
  home screen ids. The operations below take the predicate as a parameter, applied to
  what the source passes it; this definition serves the concrete examples.
\<close>

definition isRootScreen :: "screen list \<Rightarrow> screen option \<Rightarrow> bool" where
  "isRootScreen roots v = (case v of None \<Rightarrow> False | Some s \<Rightarrow> s \<in> set roots)"

definition showBackButton :: "bool \<Rightarrow> app \<Rightarrow> app" where
  "showBackButton show st = record_call (NavBarShowBackButton show) st"

definition changeTabs :: "int \<Rightarrow> app \<Rightarrow> app" where
  "changeTabs tab st =
     (let st1 = record_call ResumeAllSearchListeners st;
          st2 = st1\<lparr>ignoreNextSearch := True\<rparr>;
          st3 = showBackButton False st2;
          st4 = record_call NavBarClearSearch st3;
          st5 = record_call (NavigatorResetTo (ScreenNum tab)) st4;
          st6 = record_call LayoutEaseInEaseOut st5;
          st7 = st6\<lparr>currentTab := tab\<rparr>
      in st7\<lparr>screenStack := [ScreenNum tab]\<rparr>)"

definition getCurrentScreen :: "app \<Rightarrow> screen" where
  "getCurrentScreen st =
     (if screenStack st \<noteq> [] then last (screenStack st) else ScreenNum 0)"

text \<open>\<^verbatim>\<open>Array.prototype.pop\<close> removes the last element and leaves an empty array empty.\<close>

definition navigateBack :: "(screen option \<Rightarrow> bool) \<Rightarrow> app \<Rightarrow> bool \<times> app" where
  "navigateBack isRoot st =
     (if \<not> isRoot (stackTop (screenStack st)) then
        (let st1 = record_call NavigatorPop st;
             st2 = st1\<lparr>screenStack := butlast (screenStack st1)\<rparr>;
             st3 = (if isRoot (stackTop (screenStack st2)) then showBackButton False st2 else st2)
         in (True, st3))
      else (False, st))"

definition navigateForward :: "(screen option \<Rightarrow> bool) \<Rightarrow> screen \<Rightarrow> jsval \<Rightarrow> app \<Rightarrow> app" where
  "navigateForward isRoot screenId data st =
     (if getCurrentScreen st = screenId then st
      else
        (let st1 = (if isRoot (Some (getCurrentScreen st)) then showBackButton True st else st);
             st2 = record_call (NavigatorPush screenId data) st1
         in st2\<lparr>screenStack := screenStack st2 @ [screenId]\<rparr>))"

text \<open>The loop of \<^verbatim>\<open>_onSearch\<close> over the listeners it was given, skipping null entries.\<close>

fun deliver :: "listener option list \<Rightarrow> string option \<Rightarrow> call list" where
  "deliver [] searchTerms = []"
| "deliver (None # ls) searchTerms = deliver ls searchTerms"
| "deliver (Some l # ls) searchTerms = ListenerOnSearch l searchTerms # deliver ls searchTerms"

definition onSearch :: "registry \<Rightarrow> string option \<Rightarrow> app \<Rightarrow> app" where
  "onSearch reg searchTerms st =
     (if ignoreNextSearch st then st\<lparr>ignoreNextSearch := False\<rparr>
      else if numberOfSearchListeners reg > 0 \<and> \<not> alwaysSearchAll reg then
        st\<lparr>calls := calls st @ deliver (highestPrioritySearchListeners reg) searchTerms\<rparr>
      else
        (case defaultSearchListener reg of
           Some l \<Rightarrow> record_call (ListenerOnSearch l searchTerms) st
         | None \<Rightarrow> st))"

text \<open>A run of \<open>n\<close> back events, one after the other; the answers are kept in order.\<close>

fun navigateBackTimes :: "(screen option \<Rightarrow> bool) \<Rightarrow> nat \<Rightarrow> app \<Rightarrow> bool list \<times> app" where
  "navigateBackTimes isRoot 0 st = ([], st)"
| "navigateBackTimes isRoot (Suc n) st =
     (let (r, st') = navigateBack isRoot st;
          (rs, st'') = navigateBackTimes isRoot n st'
      in (r # rs, st''))"

section \<open>Basic facts\<close>

lemma getProp_nullish: "(\<exists>e. getProp a k = Inl e) \<longleftrightarrow> (a = Undefined \<or> a = Null)"
  by (cases a) simp_all

lemma header_throws_iff:
  "(\<exists>e. header ct s a = Inl e) \<longleftrightarrow> (a = Undefined \<or> a = Null)"
  by (cases a) (simp_all add: header_def Let_def)

lemma bitLength_bounds:
  "2 ^ k \<le> n \<Longrightarrow> n < 2 ^ Suc k \<Longrightarrow> bitLength n = Suc k"
proof (induction k arbitrary: n)
  case 0
  then have "n = Suc 0" by simp
  then show ?case by (simp add: bitLength.simps [of "Suc 0"] bitLength.simps [of 0])
next
  case (Suc k)
  have "(0::nat) < 2 ^ Suc k" by simp
  then have pos: "n \<noteq> 0" using Suc.prems(1) by linarith
  have lo: "2 ^ k \<le> n div 2" using Suc.prems(1) by simp
  have hi: "n div 2 < 2 ^ Suc k" using Suc.prems(2) by simp
  show ?case
    using Suc.IH [OF lo hi] pos by (subst bitLength.simps) simp
qed

lemma bitLength_54:
  "9007199254740992 \<le> n \<Longrightarrow> n < 18014398509481984 \<Longrightarrow> bitLength n = 54"
  using bitLength_bounds [of 53 n] by simp

lemma roundDouble_small: "\<bar>m\<bar> < 2 ^ 53 \<Longrightarrow> roundDouble m = m"
  by (simp add: roundDouble_def Let_def nat_less_iff)

lemma roundDouble_2_53: "roundDouble 9007199254740992 = 9007199254740992"
  by (simp add: roundDouble_def Let_def bitLength_54)

lemma roundDouble_minus_2_53: "roundDouble (- 9007199254740992) = - 9007199254740992"
  by (simp add: roundDouble_def Let_def bitLength_54)

lemma roundDouble_tie_down: "roundDouble 9007199254740993 = 9007199254740992"
  by (simp add: roundDouble_def Let_def bitLength_54)

lemma roundDouble_tie_up: "roundDouble 9007199254740995 = 9007199254740996"
  by (simp add: roundDouble_def Let_def bitLength_54)

lemma roundDouble_exact: "\<bar>m\<bar> \<le> 2 ^ 53 \<Longrightarrow> roundDouble m = m"
proof -
  assume "\<bar>m\<bar> \<le> 2 ^ 53"
  then consider "\<bar>m\<bar> < 2 ^ 53" | "m = 9007199254740992" | "m = - 9007199254740992"
    by fastforce
  then show ?thesis
    by cases (simp_all add: roundDouble_small roundDouble_2_53 roundDouble_minus_2_53)
qed

lemma header_navigate_back_step:
  "getProp a ''type'' = Inr (JStr ''NAVIGATE_BACK'') \<Longrightarrow>
   header ct (Some S) a = Inr (S\<lparr>backNavigation := roundDouble (backNavigation S + 1)\<rparr>)"
  by (simp add: header_def jsAdd_def)

lemma headerAll_append:
  "headerAll ct S (as @ bs) =
     (case headerAll ct S as of Inl e \<Rightarrow> Inl e | Inr S' \<Rightarrow> headerAll ct S' bs)"
  by (induction as arbitrary: S) (simp_all split: sum.splits)

lemma headerAll_navigate_back:
  "getProp a ''type'' = Inr (JStr ''NAVIGATE_BACK'') \<Longrightarrow>
   - (2 ^ 53) \<le> backNavigation S \<Longrightarrow> backNavigation S + int N \<le> 2 ^ 53 \<Longrightarrow>
   headerAll ct S (replicate N a) = Inr (S\<lparr>backNavigation := backNavigation S + int N\<rparr>)"
proof (induction N arbitrary: S)
  case 0
  then show ?case by simp
next
  case (Suc N)
  have "\<bar>backNavigation S + 1\<bar> \<le> 2 ^ 53"
    using Suc.prems(2,3) by simp
  then have step: "header ct (Some S) a = Inr (S\<lparr>backNavigation := backNavigation S + 1\<rparr>)"
    using header_navigate_back_step [OF Suc.prems(1), of ct S] by (simp add: roundDouble_exact)
  have sum: "backNavigation S + 1 + int N = backNavigation S + int (Suc N)"
    by simp
  have "headerAll ct (S\<lparr>backNavigation := backNavigation S + 1\<rparr>) (replicate N a) =
          Inr (S\<lparr>backNavigation := backNavigation S + 1,
                 backNavigation := backNavigation S + 1 + int N\<rparr>)"
    using Suc.IH [OF Suc.prems(1), of "S\<lparr>backNavigation := backNavigation S + 1\<rparr>"] Suc.prems(2,3)
    by simp
  then have rest: "headerAll ct (S\<lparr>backNavigation := backNavigation S + 1\<rparr>) (replicate N a) =
          Inr (S\<lparr>backNavigation := backNavigation S + int (Suc N)\<rparr>)"
    by (simp only: sum) simp
  show ?case
    by (simp only: replicate_Suc headerAll.simps step sum.case rest)
qed

lemma headerAll_stalls:
  assumes type: "getProp a ''type'' = Inr (JStr ''NAVIGATE_BACK'')"
    and count: "int n = 9007199254740992"
  shows "headerAll ct (initialState ct) (replicate (Suc n) a)
           = Inr ((initialState ct)\<lparr>backNavigation := 9007199254740992\<rparr>)"
proof -
  have many: "headerAll ct (initialState ct) (replicate n a)
                = Inr ((initialState ct)\<lparr>backNavigation := 9007199254740992\<rparr>)"
    using headerAll_navigate_back [OF type, of "initialState ct" n ct] count
    by (simp add: initialState_def)
  have one: "header ct (Some ((initialState ct)\<lparr>backNavigation := 9007199254740992\<rparr>)) a
               = Inr ((initialState ct)\<lparr>backNavigation := 9007199254740992\<rparr>)"
    using header_navigate_back_step [OF type, of ct "(initialState ct)\<lparr>backNavigation := 9007199254740992\<rparr>"]
    by (simp add: roundDouble_tie_down)
  have "replicate (Suc n) a = replicate n a @ [a]"
    by (simp add: replicate_append_same)
  then show ?thesis
    using many one by (simp only: headerAll_append) simp
qed

lemma stackTop_current:
  "screenStack st \<noteq> [] \<Longrightarrow> stackTop (screenStack st) = Some (getCurrentScreen st)"
  by (simp add: stackTop_def getCurrentScreen_def)

lemma navigateBack_at_root:
  "isRoot (stackTop (screenStack st)) \<Longrightarrow> navigateBack isRoot st = (False, st)"
  by (simp add: navigateBack_def)

lemma navigateBackTimes_at_root:
  "isRoot (stackTop (screenStack st)) \<Longrightarrow>
   navigateBackTimes isRoot n st = (replicate n False, st)"
  by (induction n) (simp_all add: navigateBack_at_root)

lemma changeTabs_stack: "screenStack (changeTabs tab st) = [ScreenNum tab]"
  by (simp add: changeTabs_def Let_def)

lemma changeTabs_flag: "ignoreNextSearch (changeTabs tab st)"
  by (simp add: changeTabs_def Let_def showBackButton_def record_call_def)

lemma navigateForward_current:
  "getCurrentScreen (navigateForward isRoot X d st) = X"
  by (simp add: navigateForward_def getCurrentScreen_def Let_def showBackButton_def record_call_def)

lemma navigateForward_stack:
  "screenStack (navigateForward isRoot X d st) =
     (if getCurrentScreen st = X then screenStack st else screenStack st @ [X])"
  by (simp add: navigateForward_def Let_def showBackButton_def record_call_def)

lemma deliver_listeners:
  "deliver ls q = [ListenerOnSearch l q. Some l \<leftarrow> ls]"
proof (induction ls)
  case Nil
  then show ?case by simp
next
  case (Cons x ls)
  then show ?case by (cases x) simp_all
qed

lemma onSearch_flag_clear:
  "\<not> ignoreNextSearch st \<Longrightarrow>
   onSearch reg q st =
     (if 0 < numberOfSearchListeners reg \<and> \<not> alwaysSearchAll reg
      then st\<lparr>calls := calls st @ deliver (highestPrioritySearchListeners reg) q\<rparr>
      else case defaultSearchListener reg of
             Some l \<Rightarrow> st\<lparr>calls := calls st @ [ListenerOnSearch l q]\<rparr>
           | None \<Rightarrow> st)"
  by (simp add: onSearch_def record_call_def split: option.splits)

section \<open>Back navigation and the header counter\<close>

text \<open>
  The stack \<open>[1, 2]\<close> with screen 1 the only root screen: the back event succeeds and pops
  the stack, and the header state is the one it was, its counter still 0 and not 1.
  \<^verbatim>\<open>_navigateBack\<close> calls \<^verbatim>\<open>Navigator.pop\<close>, pops \<^verbatim>\<open>screenStack\<close> and sets the state of
  the navigation bar; it dispatches nothing to the reducer.
\<close>

theorem navigateBack_leaves_counter:
  "fst (navigateBack (isRootScreen [ScreenNum 1])
     \<lparr>screenStack = [ScreenNum 1, ScreenNum 2], currentTab = 1, ignoreNextSearch = False,
      calls = [], headerStore = initialState Null\<rparr>) \<and>
   screenStack (snd (navigateBack (isRootScreen [ScreenNum 1])
     \<lparr>screenStack = [ScreenNum 1, ScreenNum 2], currentTab = 1, ignoreNextSearch = False,
      calls = [], headerStore = initialState Null\<rparr>)) = [ScreenNum 1] \<and>
   backNavigation (headerStore (snd (navigateBack (isRootScreen [ScreenNum 1])
     \<lparr>screenStack = [ScreenNum 1, ScreenNum 2], currentTab = 1, ignoreNextSearch = False,
      calls = [], headerStore = initialState Null\<rparr>)))
   \<noteq> backNavigation (headerStore
     \<lparr>screenStack = [ScreenNum 1, ScreenNum 2], currentTab = 1, ignoreNextSearch = False,
      calls = [], headerStore = initialState Null\<rparr>) + 1"
  by (simp add: navigateBack_def Let_def showBackButton_def record_call_def isRootScreen_def
      stackTop_def initialState_def)

text \<open>
  C1, as the code has it: a back event on a screen that is not a root screen returns
  true, pops the navigation stack, asks the navigator to pop, and hides the back button
  when the new top of the stack is a root screen. The header state, and with it the
  back-navigation counter, is left as it was: the counter moves only when a
  \<^verbatim>\<open>NAVIGATE_BACK\<close> action is given to the reducer, and the back event gives it none.
\<close>

theorem navigateBack_pops_without_header:
  "\<not> isRoot (stackTop (screenStack st)) \<Longrightarrow>
   navigateBack isRoot st =
     (True, st\<lparr>screenStack := butlast (screenStack st),
               calls := calls st @ NavigatorPop #
                 (if isRoot (stackTop (butlast (screenStack st)))
                  then [NavBarShowBackButton False] else [])\<rparr>) \<and>
   headerStore (snd (navigateBack isRoot st)) = headerStore st"
  by (simp add: navigateBack_def Let_def showBackButton_def record_call_def)

theorem navigateBack_pops_without_header_witness:
  "\<not> isRootScreen [ScreenNum 1] (stackTop [ScreenNum 1, ScreenNum 2]) \<and>
   navigateBack (isRootScreen [ScreenNum 1])
     \<lparr>screenStack = [ScreenNum 1, ScreenNum 2], currentTab = 1, ignoreNextSearch = False,
      calls = [], headerStore = initialState Null\<rparr> =
     (True, \<lparr>screenStack = [ScreenNum 1], currentTab = 1, ignoreNextSearch = False,
             calls = [NavigatorPop, NavBarShowBackButton False], headerStore = initialState Null\<rparr>)"
  using navigateBack_pops_without_header
    [where isRoot = "isRootScreen [ScreenNum 1]"
       and st = "\<lparr>screenStack = [ScreenNum 1, ScreenNum 2], currentTab = 1,
                   ignoreNextSearch = False, calls = [], headerStore = initialState Null\<rparr>"]
  by (simp add: isRootScreen_def stackTop_def)

section \<open>The floor of the navigation stack\<close>

text \<open>
  C2: on a stack that holds a single root screen, as a tab switch leaves it, every run
  of back events answers false each time and leaves the state as it was, so the stack
  keeps its one entry and its length never drops below 1. In any state, a back event on
  a root screen answers false and changes nothing.
\<close>

theorem navigateBack_stack_floor:
  "screenStack st = [r] \<Longrightarrow> isRoot (Some r) \<Longrightarrow>
   navigateBackTimes isRoot n st = (replicate n False, st) \<and>
   1 \<le> length (screenStack (snd (navigateBackTimes isRoot n st))) \<and>
   screenStack (changeTabs tab st0) = [ScreenNum tab] \<and>
   (isRoot (stackTop (screenStack st')) \<longrightarrow> navigateBack isRoot st' = (False, st')) \<and>
   (screenStack st' \<noteq> [] \<and> isRoot (Some (getCurrentScreen st')) \<longrightarrow>
      navigateBack isRoot st' = (False, st'))"
proof -
  assume single: "screenStack st = [r]" and root: "isRoot (Some r)"
  have top: "isRoot (stackTop (screenStack st))"
    using single root by (simp add: stackTop_def)
  have run: "navigateBackTimes isRoot n st = (replicate n False, st)"
    using top by (rule navigateBackTimes_at_root)
  show ?thesis
    using run single by (auto simp: changeTabs_stack navigateBack_at_root stackTop_current)
qed

theorem navigateBack_stack_floor_witness:
  "screenStack (changeTabs 1 \<lparr>screenStack = [ScreenNum 4, ScreenNum 5], currentTab = 4,
      ignoreNextSearch = False, calls = [], headerStore = initialState Null\<rparr>) = [ScreenNum 1] \<and>
   isRootScreen [ScreenNum 1] (Some (ScreenNum 1)) \<and>
   navigateBackTimes (isRootScreen [ScreenNum 1]) 3
     (changeTabs 1 \<lparr>screenStack = [ScreenNum 4, ScreenNum 5], currentTab = 4,
                    ignoreNextSearch = False, calls = [], headerStore = initialState Null\<rparr>)
   = ([False, False, False],
      \<lparr>screenStack = [ScreenNum 1], currentTab = 1, ignoreNextSearch = True,
       calls = [ResumeAllSearchListeners, NavBarShowBackButton False, NavBarClearSearch,
                NavigatorResetTo (ScreenNum 1), LayoutEaseInEaseOut],
       headerStore = initialState Null\<rparr>)"
  using navigateBack_stack_floor
    [where isRoot = "isRootScreen [ScreenNum 1]" and r = "ScreenNum 1" and n = 3
       and st = "changeTabs 1 \<lparr>screenStack = [ScreenNum 4, ScreenNum 5], currentTab = 4,
                   ignoreNextSearch = False, calls = [], headerStore = initialState Null\<rparr>"]
  by (simp add: isRootScreen_def changeTabs_def Let_def showBackButton_def record_call_def
      numeral_3_eq_3)

section \<open>The guard against pushing the screen that is showing\<close>

text \<open>
  C3: going forward to the screen that is already showing changes nothing, whatever
  the payload; so a second \<^verbatim>\<open>_navigateForward\<close> to the same screen id is always rejected,
  also with a different payload (the guard reads the screen id alone), and two calls in a
  row from a state showing another screen add exactly one entry to the stack.
\<close>

theorem navigateForward_duplicate_guard:
  "(getCurrentScreen st = X \<longrightarrow> navigateForward isRoot X d st = st) \<and>
   navigateForward isRoot X d2 (navigateForward isRoot X d1 st) = navigateForward isRoot X d1 st \<and>
   (getCurrentScreen st \<noteq> X \<longrightarrow>
      screenStack (navigateForward isRoot X d2 (navigateForward isRoot X d1 st))
        = screenStack st @ [X] \<and>
      length (screenStack (navigateForward isRoot X d2 (navigateForward isRoot X d1 st)))
        = length (screenStack st) + 1)"
proof -
  have second: "navigateForward isRoot X d2 (navigateForward isRoot X d1 st)
                  = navigateForward isRoot X d1 st"
    using navigateForward_current [of isRoot X d1 st]
    by (simp add: navigateForward_def [of isRoot X d2])
  show ?thesis
    by (simp add: second navigateForward_stack) (simp add: navigateForward_def)
qed

theorem navigateForward_duplicate_guard_witness:
  "getCurrentScreen \<lparr>screenStack = [ScreenNum 1], currentTab = 1, ignoreNextSearch = False,
      calls = [], headerStore = initialState Null\<rparr> \<noteq> ScreenStr ''search'' \<and>
   navigateForward (isRootScreen [ScreenNum 1]) (ScreenStr ''search'') (JStr ''cafe'')
     (navigateForward (isRootScreen [ScreenNum 1]) (ScreenStr ''search'') (JStr ''pizza'')
        \<lparr>screenStack = [ScreenNum 1], currentTab = 1, ignoreNextSearch = False,
         calls = [], headerStore = initialState Null\<rparr>)
   = \<lparr>screenStack = [ScreenNum 1, ScreenStr ''search''], currentTab = 1, ignoreNextSearch = False,
      calls = [NavBarShowBackButton True, NavigatorPush (ScreenStr ''search'') (JStr ''pizza'')],
      headerStore = initialState Null\<rparr>"
  using navigateForward_duplicate_guard
    [where st = "\<lparr>screenStack = [ScreenNum 1], currentTab = 1, ignoreNextSearch = False,
                   calls = [], headerStore = initialState Null\<rparr>"
       and X = "ScreenStr ''search''" and isRoot = "isRootScreen [ScreenNum 1]"
       and ?d1.0 = "JStr ''pizza''" and ?d2.0 = "JStr ''cafe''"]
  by (simp add: navigateForward_def getCurrentScreen_def Let_def showBackButton_def
      record_call_def isRootScreen_def)

section \<open>The reducer on actions it does not know\<close>

text \<open>
  An action that is \<^verbatim>\<open>undefined\<close> (or \<^verbatim>\<open>null\<close>) has no \<^verbatim>\<open>type\<close> to read: the
  \<^verbatim>\<open>switch (action.type)\<close> throws a TypeError before any case is tried.
\<close>

theorem header_undefined_action_throws:
  "header Null (Some (initialState Null)) Undefined = Inl TypeError"
  by (simp add: header_def)

text \<open>
  C4, as the code has it: for every header state and every action other than
  \<^verbatim>\<open>undefined\<close> and \<^verbatim>\<open>null\<close> (the parameter's type \<^verbatim>\<open>Action\<close> admits neither), whatever
  fields the action has or lacks, the reducer returns a state and does not throw; and
  when the action's \<^verbatim>\<open>type\<close> is none of the four known kinds (or is missing, or is not a
  string) the state returned is the state given.
\<close>

theorem header_unknown_action_identity:
  "a \<noteq> Undefined \<Longrightarrow> a \<noteq> Null \<Longrightarrow>
   (\<exists>S'. header ct (Some S) a = Inr S') \<and>
   (getProp a ''type'' \<noteq> Inr (JStr ''NAVIGATE_BACK'') \<and>
    getProp a ''type'' \<noteq> Inr (JStr ''SET_HEADER_TITLE'') \<and>
    getProp a ''type'' \<noteq> Inr (JStr ''HEADER_SHOW_BACK'') \<and>
    getProp a ''type'' \<noteq> Inr (JStr ''HEADER_SHOW_SEARCH'')
    \<longrightarrow> header ct (Some S) a = Inr S)"
  by (cases a) (simp_all add: header_def)

theorem header_unknown_action_identity_witness:
  "JObj [(''type'', JStr ''UNKNOWN'')] \<noteq> Undefined \<and> JObj [(''type'', JStr ''UNKNOWN'')] \<noteq> Null \<and>
   getProp (JObj [(''type'', JStr ''UNKNOWN'')]) ''type'' \<noteq> Inr (JStr ''NAVIGATE_BACK'') \<and>
   getProp (JObj [(''type'', JStr ''UNKNOWN'')]) ''type'' \<noteq> Inr (JStr ''SET_HEADER_TITLE'') \<and>
   getProp (JObj [(''type'', JStr ''UNKNOWN'')]) ''type'' \<noteq> Inr (JStr ''HEADER_SHOW_BACK'') \<and>
   getProp (JObj [(''type'', JStr ''UNKNOWN'')]) ''type'' \<noteq> Inr (JStr ''HEADER_SHOW_SEARCH'') \<and>
   header Null (Some (initialState Null)) (JObj [(''type'', JStr ''UNKNOWN'')]) = Inr (initialState Null)"
  using header_unknown_action_identity [of "JObj [(''type'', JStr ''UNKNOWN'')]" Null "initialState Null"]
  by simp

section \<open>Counting back navigations\<close>

text \<open>
  The counter is a number, and \<^verbatim>\<open>state.backNavigation + 1\<close> is an addition of doubles:
  at \<open>2^53 = 9007199254740992\<close> the sum \<open>2^53 + 1\<close> lies half way between two doubles
  and is rounded back to \<open>2^53\<close>. A \<^verbatim>\<open>NAVIGATE_BACK\<close> action on a counter of \<open>2^53\<close>
  leaves it there, and \<open>2^53 + 1\<close> such actions from the initial state leave the counter
  at \<open>2^53\<close>.
\<close>

theorem header_navigate_back_stalls:
  "header Null (Some ((initialState Null)\<lparr>backNavigation := 9007199254740992\<rparr>))
     (JObj [(''type'', JStr ''NAVIGATE_BACK'')])
     = Inr ((initialState Null)\<lparr>backNavigation := 9007199254740992\<rparr>) \<and>
   headerAll Null (initialState Null)
     (replicate 9007199254740993 (JObj [(''type'', JStr ''NAVIGATE_BACK'')]))
     = Inr ((initialState Null)\<lparr>backNavigation := 9007199254740992\<rparr>)"
proof -
  let ?a = "JObj [(''type'', JStr ''NAVIGATE_BACK'')]"
  let ?top = "(initialState Null)\<lparr>backNavigation := 9007199254740992\<rparr>"
  have type: "getProp ?a ''type'' = Inr (JStr ''NAVIGATE_BACK'')" by simp
  have one: "header Null (Some ?top) ?a = Inr ?top"
    using header_navigate_back_step [OF type, of Null ?top]
    by (simp add: roundDouble_tie_down)
  have count: "int 9007199254740992 = 9007199254740992" by simp
  have many: "headerAll Null (initialState Null) (replicate (Suc 9007199254740992) ?a) = Inr ?top"
    using type count by (rule headerAll_stalls)
  have next_one: "(9007199254740993::nat) = Suc 9007199254740992" by simp
  show ?thesis
    unfolding next_one using one many by (rule conjI)
qed

text \<open>
  C5, as the code has it: for every natural number \<open>N\<close> up to \<open>2^53\<close>, \<open>N\<close> applications
  of a \<^verbatim>\<open>NAVIGATE_BACK\<close> action from the initial state give the state whose counter is
  \<open>N\<close> and whose other fields are the initial ones. One application to any state keeps
  the title and both flags, and adds exactly 1 to a counter that lies between \<open>-2^53\<close>
  and \<open>2^53 - 1\<close>.
\<close>

theorem header_navigate_back_counts:
  "getProp a ''type'' = Inr (JStr ''NAVIGATE_BACK'') \<Longrightarrow>
   (N \<le> 2 ^ 53 \<longrightarrow>
      headerAll ct (initialState ct) (replicate N a)
        = Inr ((initialState ct)\<lparr>backNavigation := int N\<rparr>)) \<and>
   (\<exists>S'. header ct (Some S) a = Inr S' \<and>
         (- (2 ^ 53) \<le> backNavigation S \<and> backNavigation S < 2 ^ 53 \<longrightarrow>
            backNavigation S' = backNavigation S + 1) \<and>
         title S' = title S \<and>
         shouldShowBack S' = shouldShowBack S \<and>
         shouldShowSearch S' = shouldShowSearch S)"
proof -
  assume type: "getProp a ''type'' = Inr (JStr ''NAVIGATE_BACK'')"
  have run: "headerAll ct (initialState ct) (replicate N a)
               = Inr ((initialState ct)\<lparr>backNavigation := int N\<rparr>)" if "N \<le> 2 ^ 53"
  proof -
    have "int N \<le> int (2 ^ 53)" using that by (simp only: of_nat_le_iff)
    then have bound: "backNavigation (initialState ct) + int N \<le> 2 ^ 53"
      by (simp add: initialState_def)
    have low: "- (2 ^ 53) \<le> backNavigation (initialState ct)"
      by (simp add: initialState_def)
    have zero: "backNavigation (initialState ct) + int N = int N"
      by (simp add: initialState_def)
    show ?thesis
      using headerAll_navigate_back [OF type low bound, of ct] by (simp only: zero)
  qed
  have one: "roundDouble (backNavigation S + 1) = backNavigation S + 1"
    if "- (2 ^ 53) \<le> backNavigation S \<and> backNavigation S < 2 ^ 53"
  proof (rule roundDouble_exact)
    show "\<bar>backNavigation S + 1\<bar> \<le> 2 ^ 53" using that by (simp add: abs_le_iff)
  qed
  have step: "header ct (Some S) a
                = Inr (S\<lparr>backNavigation := roundDouble (backNavigation S + 1)\<rparr>)"
    by (rule header_navigate_back_step [OF type])
  show ?thesis
  proof (intro conjI impI exI)
    assume "N \<le> 2 ^ 53"
    then show "headerAll ct (initialState ct) (replicate N a)
                 = Inr ((initialState ct)\<lparr>backNavigation := int N\<rparr>)"
      by (rule run)
  next
    show "header ct (Some S) a
            = Inr (S\<lparr>backNavigation := roundDouble (backNavigation S + 1)\<rparr>)"
      by (rule step)
  next
    assume "- (2 ^ 53) \<le> backNavigation S \<and> backNavigation S < 2 ^ 53"
    then show "backNavigation (S\<lparr>backNavigation := roundDouble (backNavigation S + 1)\<rparr>)
                 = backNavigation S + 1"
      using one by simp
  qed simp_all
qed

theorem header_navigate_back_counts_witness:
  "getProp (JObj [(''type'', JStr ''NAVIGATE_BACK'')]) ''type'' = Inr (JStr ''NAVIGATE_BACK'') \<and>
   (3::nat) \<le> 2 ^ 53 \<and>
   headerAll Null (initialState Null) (replicate 3 (JObj [(''type'', JStr ''NAVIGATE_BACK'')]))
     = Inr ((initialState Null)\<lparr>backNavigation := 3\<rparr>) \<and>
   - (2 ^ 53) \<le> backNavigation ((initialState Null)\<lparr>backNavigation := 7\<rparr>) \<and>
   backNavigation ((initialState Null)\<lparr>backNavigation := 7\<rparr>) < 2 ^ 53 \<and>
   header Null (Some ((initialState Null)\<lparr>backNavigation := 7\<rparr>))
     (JObj [(''type'', JStr ''NAVIGATE_BACK'')])
     = Inr ((initialState Null)\<lparr>backNavigation := 8\<rparr>)"
proof -
  let ?a = "JObj [(''type'', JStr ''NAVIGATE_BACK'')]"
  let ?S = "(initialState Null)\<lparr>backNavigation := 7\<rparr>"
  note claim = header_navigate_back_counts [where a = ?a and ct = Null and N = 3 and S = ?S]
  have type: "getProp ?a ''type'' = Inr (JStr ''NAVIGATE_BACK'')" by simp
  have run: "headerAll Null (initialState Null) (replicate 3 ?a)
               = Inr ((initialState Null)\<lparr>backNavigation := 3\<rparr>)"
    using claim [OF type] by simp
  obtain S' where S': "header Null (Some ?S) ?a = Inr S'"
      "backNavigation S' = 8" "title S' = title ?S"
      "shouldShowBack S' = shouldShowBack ?S" "shouldShowSearch S' = shouldShowSearch ?S"
    using claim [OF type] by auto
  have "S' = (initialState Null)\<lparr>backNavigation := 8\<rparr>"
    using S'(2-5) by (cases S') (simp add: initialState_def)
  then show ?thesis
    using run S'(1) by simp
qed

section \<open>Setting the title\<close>

text \<open>
  A title that is the empty string is present and is not null, yet the reducer does not
  store it: \<^verbatim>\<open>action.title || initialState.title\<close> takes the default title for it.
\<close>

theorem header_set_title_empty_string:
  "getProp (JObj [(''type'', JStr ''SET_HEADER_TITLE''), (''title'', JStr '''')]) ''title''
     = Inr (JStr '''') \<and>
   header Null (Some ((initialState Null)\<lparr>title := JStr ''Find''\<rparr>))
     (JObj [(''type'', JStr ''SET_HEADER_TITLE''), (''title'', JStr '''')])
     = Inr ((initialState Null)\<lparr>title := JObj [(''name_en'', JStr ''Campus Guide''),
                                                 (''name_fr'', JStr ''Guide de campus'')]\<rparr>) \<and>
   header Null (Some ((initialState Null)\<lparr>title := JStr ''Find''\<rparr>))
     (JObj [(''type'', JStr ''SET_HEADER_TITLE''), (''title'', JStr '''')])
     \<noteq> Inr ((initialState Null)\<lparr>title := JStr ''''\<rparr>)"
  by (simp add: header_def initialState_def defaultTitle_def appName_def)

text \<open>
  C6, as the code has it: for every header state and every \<^verbatim>\<open>SET_HEADER_TITLE\<close> action
  the reducer returns a state and does not throw; the new title is \<^verbatim>\<open>action.title\<close> when
  that value is truthy, and the default app-name title otherwise; the other fields stay.
\<close>

theorem header_set_title_truthy:
  "getProp a ''type'' = Inr (JStr ''SET_HEADER_TITLE'') \<Longrightarrow>
   \<exists>v. getProp a ''title'' = Inr v \<and>
       header ct (Some S) a = Inr (S\<lparr>title := (if truthy v then v else defaultTitle ct)\<rparr>)"
  by (cases a) (simp_all add: header_def initialState_def)

theorem header_set_title_truthy_witness:
  "getProp (JObj [(''type'', JStr ''SET_HEADER_TITLE''), (''title'', JStr ''Find'')]) ''type''
     = Inr (JStr ''SET_HEADER_TITLE'') \<and>
   header Null (Some (initialState Null))
     (JObj [(''type'', JStr ''SET_HEADER_TITLE''), (''title'', JStr ''Find'')])
     = Inr ((initialState Null)\<lparr>title := JStr ''Find''\<rparr>)"
  using header_set_title_truthy
    [of "JObj [(''type'', JStr ''SET_HEADER_TITLE''), (''title'', JStr ''Find'')]" Null "initialState Null"]
  by simp

text \<open>
  C9: for every header state and every \<^verbatim>\<open>SET_HEADER_TITLE\<close> action whose title is
  falsy, the new title is the default app-name title. The falsy titles that are present
  and not null are the empty string, the number 0 and \<^verbatim>\<open>false\<close>.
\<close>

theorem header_set_title_falsy:
  "getProp a ''type'' = Inr (JStr ''SET_HEADER_TITLE'') \<Longrightarrow>
   getProp a ''title'' = Inr v \<Longrightarrow> \<not> truthy v \<Longrightarrow>
   header ct (Some S) a = Inr (S\<lparr>title := defaultTitle ct\<rparr>) \<and>
   (v \<noteq> Undefined \<and> v \<noteq> Null \<longleftrightarrow> v = JStr '''' \<or> v = JNum 0 \<or> v = JBool False)"
  by (cases v) (simp_all add: header_def initialState_def)

theorem header_set_title_falsy_witness:
  "getProp (JObj [(''type'', JStr ''SET_HEADER_TITLE''), (''title'', JStr '''')]) ''type''
     = Inr (JStr ''SET_HEADER_TITLE'') \<and>
   getProp (JObj [(''type'', JStr ''SET_HEADER_TITLE''), (''title'', JStr '''')]) ''title''
     = Inr (JStr '''') \<and>
   \<not> truthy (JStr '''') \<and>
   header Null (Some ((initialState Null)\<lparr>title := JStr ''Find''\<rparr>))
     (JObj [(''type'', JStr ''SET_HEADER_TITLE''), (''title'', JStr '''')])
     = Inr ((initialState Null)\<lparr>title := JStr ''Find'', title := defaultTitle Null\<rparr>)"
  using header_set_title_falsy
    [of "JObj [(''type'', JStr ''SET_HEADER_TITLE''), (''title'', JStr '''')]" "JStr ''''" Null
        "(initialState Null)\<lparr>title := JStr ''Find''\<rparr>"]
  by simp

section \<open>The default state argument\<close>

text \<open>
  C10: for every action, the reducer called without a state behaves as the reducer
  called on the initial state, which has counter 0, the default app-name title and both
  flags false.
\<close>

theorem header_default_state:
  "header ct None A = header ct (Some (initialState ct)) A \<and>
   initialState ct = \<lparr> backNavigation = 0, title = defaultTitle ct,
                       shouldShowBack = JBool False, shouldShowSearch = JBool False \<rparr>"
  by (simp add: header_def initialState_def)

section \<open>Search dispatch\<close>

text \<open>
  C7: with the suppression flag clear, a search goes to every non-null listener of the
  highest-priority tier, once each and in the tier's order, and to nobody else, when
  listeners are registered and the always-search-all preference is off; otherwise to the
  default listener alone, once, when there is one; otherwise nothing happens.
\<close>

theorem onSearch_delivery:
  "\<not> ignoreNextSearch st \<Longrightarrow>
   (0 < numberOfSearchListeners reg \<and> \<not> alwaysSearchAll reg \<longrightarrow>
      onSearch reg q st =
        st\<lparr>calls := calls st @ [ListenerOnSearch l q. Some l \<leftarrow> highestPrioritySearchListeners reg]\<rparr>) \<and>
   (\<not> (0 < numberOfSearchListeners reg \<and> \<not> alwaysSearchAll reg) \<longrightarrow>
      (\<forall>d. defaultSearchListener reg = Some d \<longrightarrow>
           onSearch reg q st = st\<lparr>calls := calls st @ [ListenerOnSearch d q]\<rparr>) \<and>
      (defaultSearchListener reg = None \<longrightarrow> onSearch reg q st = st))"
  by (simp add: onSearch_flag_clear deliver_listeners)

theorem onSearch_delivery_witness:
  "\<not> ignoreNextSearch \<lparr>screenStack = [ScreenNum 1], currentTab = 1, ignoreNextSearch = False,
       calls = [], headerStore = initialState Null\<rparr> \<and>
   onSearch \<lparr>numberOfSearchListeners = 3, highestPrioritySearchListeners = [Some 7, None, Some 9],
             defaultSearchListener = Some 0, alwaysSearchAll = False\<rparr> (Some ''cafe'')
     \<lparr>screenStack = [ScreenNum 1], currentTab = 1, ignoreNextSearch = False,
      calls = [], headerStore = initialState Null\<rparr>
   = \<lparr>screenStack = [ScreenNum 1], currentTab = 1, ignoreNextSearch = False,
      calls = [ListenerOnSearch 7 (Some ''cafe''), ListenerOnSearch 9 (Some ''cafe'')],
      headerStore = initialState Null\<rparr> \<and>
   onSearch \<lparr>numberOfSearchListeners = 0, highestPrioritySearchListeners = [],
             defaultSearchListener = Some 0, alwaysSearchAll = False\<rparr> (Some ''cafe'')
     \<lparr>screenStack = [ScreenNum 1], currentTab = 1, ignoreNextSearch = False,
      calls = [], headerStore = initialState Null\<rparr>
   = \<lparr>screenStack = [ScreenNum 1], currentTab = 1, ignoreNextSearch = False,
      calls = [ListenerOnSearch 0 (Some ''cafe'')], headerStore = initialState Null\<rparr> \<and>
   onSearch \<lparr>numberOfSearchListeners = 0, highestPrioritySearchListeners = [],
             defaultSearchListener = None, alwaysSearchAll = False\<rparr> (Some ''cafe'')
     \<lparr>screenStack = [ScreenNum 1], currentTab = 1, ignoreNextSearch = False,
      calls = [], headerStore = initialState Null\<rparr>
   = \<lparr>screenStack = [ScreenNum 1], currentTab = 1, ignoreNextSearch = False,
      calls = [], headerStore = initialState Null\<rparr>"
  using
    onSearch_delivery
      [where st = "\<lparr>screenStack = [ScreenNum 1], currentTab = 1, ignoreNextSearch = False,
                     calls = [], headerStore = initialState Null\<rparr>"
         and reg = "\<lparr>numberOfSearchListeners = 3,
                      highestPrioritySearchListeners = [Some 7, None, Some 9],
                      defaultSearchListener = Some 0, alwaysSearchAll = False\<rparr>"
         and q = "Some ''cafe''"]
    onSearch_delivery
      [where st = "\<lparr>screenStack = [ScreenNum 1], currentTab = 1, ignoreNextSearch = False,
                     calls = [], headerStore = initialState Null\<rparr>"
         and reg = "\<lparr>numberOfSearchListeners = 0, highestPrioritySearchListeners = [],
                      defaultSearchListener = Some 0, alwaysSearchAll = False\<rparr>"
         and q = "Some ''cafe''"]
    onSearch_delivery
      [where st = "\<lparr>screenStack = [ScreenNum 1], currentTab = 1, ignoreNextSearch = False,
                     calls = [], headerStore = initialState Null\<rparr>"
         and reg = "\<lparr>numberOfSearchListeners = 0, highestPrioritySearchListeners = [],
                      defaultSearchListener = None, alwaysSearchAll = False\<rparr>"
         and q = "Some ''cafe''"]
  by simp

text \<open>
  C8: a tab switch sets the suppression flag. With the flag set, the next search is
  swallowed: no listener is called and the only change is that the flag is cleared; the
  search after that one is dispatched as a search on a state with the flag clear.
\<close>

theorem onSearch_one_shot_suppression:
  "ignoreNextSearch (changeTabs tab st0) \<and>
   (ignoreNextSearch st \<longrightarrow>
      onSearch reg q st = st\<lparr>ignoreNextSearch := False\<rparr> \<and>
      calls (onSearch reg q st) = calls st \<and>
      \<not> ignoreNextSearch (onSearch reg q st) \<and>
      onSearch reg' q' (onSearch reg q st) = onSearch reg' q' (st\<lparr>ignoreNextSearch := False\<rparr>) \<and>
      calls (onSearch reg' q' (onSearch reg q st)) =
        calls st @
          (if 0 < numberOfSearchListeners reg' \<and> \<not> alwaysSearchAll reg'
           then deliver (highestPrioritySearchListeners reg') q'
           else case defaultSearchListener reg' of
                  Some l \<Rightarrow> [ListenerOnSearch l q']
                | None \<Rightarrow> []))"
proof -
  have swallow: "onSearch reg q st = st\<lparr>ignoreNextSearch := False\<rparr>" if "ignoreNextSearch st"
    using that by (simp add: onSearch_def)
  have after: "calls (onSearch reg' q' (st\<lparr>ignoreNextSearch := False\<rparr>)) =
        calls st @
          (if 0 < numberOfSearchListeners reg' \<and> \<not> alwaysSearchAll reg'
           then deliver (highestPrioritySearchListeners reg') q'
           else case defaultSearchListener reg' of
                  Some l \<Rightarrow> [ListenerOnSearch l q']
                | None \<Rightarrow> [])"
    by (simp add: onSearch_flag_clear split: option.splits)
  show ?thesis
    using after by (simp add: changeTabs_flag swallow)
qed

theorem onSearch_one_shot_suppression_witness:
  "ignoreNextSearch (changeTabs 2 \<lparr>screenStack = [ScreenNum 1], currentTab = 1,
       ignoreNextSearch = False, calls = [], headerStore = initialState Null\<rparr>) \<and>
   calls (onSearch \<lparr>numberOfSearchListeners = 2, highestPrioritySearchListeners = [Some 7, Some 9],
                    defaultSearchListener = Some 0, alwaysSearchAll = False\<rparr> (Some ''cafe'')
          (changeTabs 2 \<lparr>screenStack = [ScreenNum 1], currentTab = 1,
             ignoreNextSearch = False, calls = [], headerStore = initialState Null\<rparr>))
     = [ResumeAllSearchListeners, NavBarShowBackButton False, NavBarClearSearch,
        NavigatorResetTo (ScreenNum 2), LayoutEaseInEaseOut] \<and>
   calls (onSearch \<lparr>numberOfSearchListeners = 2, highestPrioritySearchListeners = [Some 7, Some 9],
                    defaultSearchListener = Some 0, alwaysSearchAll = False\<rparr> (Some ''tea'')
          (onSearch \<lparr>numberOfSearchListeners = 2, highestPrioritySearchListeners = [Some 7, Some 9],
                    defaultSearchListener = Some 0, alwaysSearchAll = False\<rparr> (Some ''cafe'')
            (changeTabs 2 \<lparr>screenStack = [ScreenNum 1], currentTab = 1,
               ignoreNextSearch = False, calls = [], headerStore = initialState Null\<rparr>)))
     = [ResumeAllSearchListeners, NavBarShowBackButton False, NavBarClearSearch,
        NavigatorResetTo (ScreenNum 2), LayoutEaseInEaseOut,
        ListenerOnSearch 7 (Some ''tea''), ListenerOnSearch 9 (Some ''tea'')]"
proof -
  let ?s0 = "\<lparr>screenStack = [ScreenNum 1], currentTab = 1,
              ignoreNextSearch = False, calls = [], headerStore = initialState Null\<rparr>"
  let ?reg = "\<lparr>numberOfSearchListeners = 2, highestPrioritySearchListeners = [Some 7, Some 9],
               defaultSearchListener = Some 0, alwaysSearchAll = False\<rparr>"
  note claim = onSearch_one_shot_suppression
      [where tab = 2 and ?st0.0 = ?s0 and st = "changeTabs 2 ?s0"
         and reg = ?reg and q = "Some ''cafe''" and reg' = ?reg and q' = "Some ''tea''"]
  have flag: "ignoreNextSearch (changeTabs 2 ?s0)"
    using claim by blast
  have made: "calls (changeTabs 2 ?s0) =
      [ResumeAllSearchListeners, NavBarShowBackButton False, NavBarClearSearch,
       NavigatorResetTo (ScreenNum 2), LayoutEaseInEaseOut]"
    by (simp add: changeTabs_def Let_def showBackButton_def record_call_def)
  have first: "calls (onSearch ?reg (Some ''cafe'') (changeTabs 2 ?s0)) = calls (changeTabs 2 ?s0)"
    using claim flag by blast
  have "calls (onSearch ?reg (Some ''tea'') (onSearch ?reg (Some ''cafe'') (changeTabs 2 ?s0)))
      = calls (changeTabs 2 ?s0) @
          (if 0 < numberOfSearchListeners ?reg \<and> \<not> alwaysSearchAll ?reg
           then deliver (highestPrioritySearchListeners ?reg) (Some ''tea'')
           else case defaultSearchListener ?reg of
                  Some l \<Rightarrow> [ListenerOnSearch l (Some ''tea'')]
                | None \<Rightarrow> [])"
    using claim flag by blast
  then have second: "calls (onSearch ?reg (Some ''tea'') (onSearch ?reg (Some ''cafe'') (changeTabs 2 ?s0)))
      = calls (changeTabs 2 ?s0) @ [ListenerOnSearch 7 (Some ''tea''), ListenerOnSearch 9 (Some ''tea'')]"
    by simp
  show ?thesis
    using flag first second by (simp only: made append.simps)
qed

end
